theory Spec2Isabelle
  imports Complex_Main
begin

section \<open>Strings and thrown values\<close>

text \<open>
  JavaScript strings are modelled as \<^typ>\<open>string\<close>, one \<^typ>\<open>char\<close> per code unit.
  \<open>s.startsWith(p)\<close> and \<open>s.includes(p)\<close> are the literal prefix and substring tests.
\<close>

definition startsWith :: "string \<Rightarrow> string \<Rightarrow> bool" where
  "startsWith s p = (take (length p) s = p)"

fun includes_js :: "string \<Rightarrow> string \<Rightarrow> bool" where
  "includes_js [] p = (p = [])"
| "includes_js (c # cs) p = (startsWith (c # cs) p \<or> includes_js cs p)"

text \<open>
  A thrown value is either an \<open>Error\<close> instance, carrying its \<open>message\<close>, or any other
  value \<open>v\<close>, carrying \<open>String(v)\<close>. Both sources compute
  \<open>error instanceof Error ? error.message : String(error)\<close>.
\<close>

datatype js_thrown = JsError string | JsNonError string

fun errorMessage :: "js_thrown \<Rightarrow> string" where
  "errorMessage (JsError m) = m"
| "errorMessage (JsNonError s) = s"

definition isOverloaded :: "string \<Rightarrow> bool" where
  "isOverloaded errorMessage' =
     (includes_js errorMessage' ''overloaded'' \<or> includes_js errorMessage' ''503'')"

section \<open>retryWithBackoff\<close>

text \<open>
  \<open>fn\<close> is an effectful, fallible call: it takes the world and returns its outcome
  (\<open>Inl\<close> the thrown value, \<open>Inr\<close> the resolved value) with the world after it.
  The result records, besides outcome and world, how many times \<open>fn\<close> was called and
  the delays handed to \<open>setTimeout\<close>, in order. \<open>maxRetries\<close> and \<open>initialDelay\<close> are
  JavaScript numbers, taken as integers; \<open>Math.pow(2, i)\<close> is \<open>2 ^ i\<close>.
\<close>

record ('a, 'w) retry_result =
  outcome :: "js_thrown + 'a"
  world_after :: 'w
  attempts :: nat
  waits :: "int list"

function retry_loop ::
  "('w \<Rightarrow> (js_thrown + 'a) \<times> 'w) \<Rightarrow> int \<Rightarrow> int \<Rightarrow> nat \<Rightarrow> js_thrown option \<Rightarrow>
     'w \<Rightarrow> nat \<Rightarrow> int list \<Rightarrow> ('a, 'w) retry_result" where
  "retry_loop fn maxRetries initialDelay i lastError w n ds =
     (if int i < maxRetries then
        (case fn w of
           (Inr v, w') \<Rightarrow>
             \<lparr>outcome = Inr v, world_after = w', attempts = Suc n, waits = ds\<rparr>
         | (Inl error, w') \<Rightarrow>
             if isOverloaded (errorMessage error) \<and> int i < maxRetries - 1
             then retry_loop fn maxRetries initialDelay (Suc i) (Some error) w' (Suc n)
                    (ds @ [initialDelay * 2 ^ i])
             else \<lparr>outcome = Inl error, world_after = w', attempts = Suc n, waits = ds\<rparr>)
      else
        \<lparr>outcome = Inl (case lastError of None \<Rightarrow> JsNonError ''null'' | Some e \<Rightarrow> e),
         world_after = w, attempts = n, waits = ds\<rparr>)"
  by pat_completeness auto
termination
  by (relation "measure (\<lambda>(fn, maxRetries, initialDelay, i, lastError, w, n, ds).
                  nat (maxRetries - int i))") auto

declare retry_loop.simps [simp del]

definition retryWithBackoff ::
  "('w \<Rightarrow> (js_thrown + 'a) \<times> 'w) \<Rightarrow> int \<Rightarrow> int \<Rightarrow> 'w \<Rightarrow> ('a, 'w) retry_result" where
  "retryWithBackoff fn maxRetries initialDelay w =
     retry_loop fn maxRetries initialDelay 0 None w 0 []"

text \<open>
  The behaviour of the wrapped call that the retry claims speak of: started in world \<open>w\<close>,
  \<open>fn\<close> throws an overload-classified error \<open>k\<close> times in a row and then resolves to \<open>v\<close>.
\<close>

fun transient_then_success ::
  "('w \<Rightarrow> (js_thrown + 'a) \<times> 'w) \<Rightarrow> 'w \<Rightarrow> nat \<Rightarrow> 'a \<Rightarrow> bool" where
  "transient_then_success fn w 0 v = (fst (fn w) = Inr v)"
| "transient_then_success fn w (Suc k) v =
     (case fn w of
        (Inl e, w') \<Rightarrow> isOverloaded (errorMessage e) \<and> transient_then_success fn w' k v
      | (Inr u, w') \<Rightarrow> False)"

section \<open>JSON values and the JavaScript operations on them\<close>

text \<open>
  The value \<open>JSON.parse\<close> returns. A finite number is a rational (every finite double is
  one; the rounding of a literal to a double is not modelled); \<open>JInfinity\<close> is the number
  \<open>Infinity\<close> (\<open>-Infinity\<close> when its argument is true), which an overflowing literal and
  \<open>parseInt\<close> can give. An object is the list of its properties in insertion order
  (\<open>JSON.parse\<close> gives each name once; a read takes the first). A JavaScript value that
  may be \<open>undefined\<close> is a \<^typ>\<open>'a option\<close>, with \<open>None\<close> for \<open>undefined\<close>.
\<close>

datatype json =
    JNull
  | JBool bool
  | JNumber rat
  | JInfinity bool
  | JString string
  | JArray "json list"
  | JObject "(string \<times> json) list"

text \<open>
  The exceptions the language itself raises in the code modelled here: a \<open>TypeError\<close>
  (tagged with the property whose read or call failed; \<open>toString\<close> when a value cannot be
  converted to a string) and the \<open>SyntaxError\<close> of
  \<open>JSON.parse\<close> (tagged with the rejected text); \<open>ArgumentValidationError\<close> is the
  database refusing a mutation's arguments.
\<close>

datatype exn = TypeError string | SyntaxError string | ArgumentValidationError

text \<open>
  \<open>v.k\<close> for the property names this program reads (none of them is a property of
  strings, numbers, booleans or arrays): on \<open>null\<close> and \<open>undefined\<close> the read throws.
\<close>

fun get :: "json \<Rightarrow> string \<Rightarrow> exn + json option" where
  "get JNull k = Inl (TypeError k)"
| "get (JObject kvs) k = Inr (map_of kvs k)"
| "get v k = Inr None"

text \<open>\<open>v?.k\<close>: \<open>undefined\<close> when \<open>v\<close> is \<open>null\<close> or \<open>undefined\<close>.\<close>

fun get_chain :: "json option \<Rightarrow> string \<Rightarrow> json option" where
  "get_chain (Some (JObject kvs)) k = map_of kvs k"
| "get_chain v k = None"

text \<open>Truthiness, and \<open>v || d\<close> for a default \<open>d\<close> that is a JSON value.\<close>

fun truthy :: "json option \<Rightarrow> bool" where
  "truthy None = False"
| "truthy (Some JNull) = False"
| "truthy (Some (JBool b)) = b"
| "truthy (Some (JNumber n)) = (n \<noteq> 0)"
| "truthy (Some (JInfinity b)) = True"
| "truthy (Some (JString s)) = (s \<noteq> [])"
| "truthy (Some (JArray xs)) = True"
| "truthy (Some (JObject kvs)) = True"

definition or_else :: "json option \<Rightarrow> json \<Rightarrow> json" where
  "or_else v d = (case v of None \<Rightarrow> d | Some x \<Rightarrow> if truthy (Some x) then x else d)"

text \<open>
  \<open>xs.map(f)\<close> with a callback that may throw: the first exception ends the traversal.
\<close>

fun map_exn :: "('a \<Rightarrow> exn + 'b) \<Rightarrow> 'a list \<Rightarrow> exn + 'b list" where
  "map_exn f [] = Inr []"
| "map_exn f (x # xs) =
     (case f x of
        Inl e \<Rightarrow> Inl e
      | Inr y \<Rightarrow> (case map_exn f xs of Inl e \<Rightarrow> Inl e | Inr ys \<Rightarrow> Inr (y # ys)))"

text \<open>
  Object spread \<open>{...v}\<close> copies the own enumerable properties of \<open>v\<close>: those of an object,
  the indices of an array or a string, nothing for the other values. \<open>set_key\<close> is a later
  property of the same object literal: it replaces the property in place or appends it.
\<close>

fun digit_char :: "nat \<Rightarrow> char" where
  "digit_char n = char_of (48 + n)"

function decimal :: "nat \<Rightarrow> string" where
  "decimal n = (if n < 10 then [digit_char n] else decimal (n div 10) @ [digit_char (n mod 10)])"
  by pat_completeness auto
termination
  by (relation "measure id") auto

declare decimal.simps [simp del]

fun spread :: "json \<Rightarrow> (string \<times> json) list" where
  "spread (JObject kvs) = kvs"
| "spread (JArray xs) = zip (map decimal [0..<length xs]) xs"
| "spread (JString s) = zip (map decimal [0..<length s]) (map (\<lambda>c. JString [c]) s)"
| "spread v = []"

fun set_key :: "string \<Rightarrow> json \<Rightarrow> (string \<times> json) list \<Rightarrow> (string \<times> json) list" where
  "set_key k v [] = [(k, v)]"
| "set_key k v ((k', v') # kvs) =
     (if k' = k then (k, v) # kvs else (k', v') # set_key k v kvs)"

text \<open>
  White space as \<open>trim\<close> and \<open>parseInt\<close> skip it, among the code units below 256:
  tab, line feed, vertical tab, form feed, carriage return, space, no-break space.
\<close>

definition is_space :: "char \<Rightarrow> bool" where
  "is_space c = (of_char c \<in> {9, 10, 11, 12, 13, 32, 160 :: nat})"

definition trim :: "string \<Rightarrow> string" where
  "trim s = rev (dropWhile is_space (rev (dropWhile is_space s)))"

text \<open>\<open>typeof v === "number"\<close>.\<close>

fun is_number :: "json option \<Rightarrow> bool" where
  "is_number (Some (JNumber n)) = True"
| "is_number (Some (JInfinity b)) = True"
| "is_number v = False"

text \<open>
  \<open>String(v)\<close>, the conversion \<open>parseInt\<close> applies to its argument. The text of a finite
  number is the platform's \<open>Number::toString\<close> (floating-point formatting), the parameter
  \<open>ns\<close>. An object is converted by its \<open>toString\<close>: the inherited one gives
  \<open>[object Object]\<close>, but an own property \<open>toString\<close> hides it, and as no JSON value is
  callable the conversion then throws a \<open>TypeError\<close>. An array is joined with commas, its
  \<open>null\<close> elements written as the empty string, the others converted in turn.
\<close>

fun intercalate :: "string \<Rightarrow> string list \<Rightarrow> string" where
  "intercalate sep [] = []"
| "intercalate sep [x] = x"
| "intercalate sep (x # y # ys) = x @ sep @ intercalate sep (y # ys)"

fun toString :: "(rat \<Rightarrow> string) \<Rightarrow> json \<Rightarrow> exn + string"
  and toString_elements :: "(rat \<Rightarrow> string) \<Rightarrow> json list \<Rightarrow> exn + string list" where
  "toString ns JNull = Inr ''null''"
| "toString ns (JBool b) = Inr (if b then ''true'' else ''false'')"
| "toString ns (JNumber n) = Inr (ns n)"
| "toString ns (JInfinity b) = Inr (if b then ''-Infinity'' else ''Infinity'')"
| "toString ns (JString s) = Inr s"
| "toString ns (JArray xs) =
     (case toString_elements ns xs of
        Inl e \<Rightarrow> Inl e
      | Inr ss \<Rightarrow> Inr (intercalate '','' ss))"
| "toString ns (JObject kvs) =
     (case map_of kvs ''toString'' of
        None \<Rightarrow> Inr ''[object Object]''
      | Some f \<Rightarrow> Inl (TypeError ''toString''))"
| "toString_elements ns [] = Inr []"
| "toString_elements ns (x # xs) =
     (case (if x = JNull then Inr [] else toString ns x) of
        Inl e \<Rightarrow> Inl e
      | Inr s \<Rightarrow>
          (case toString_elements ns xs of Inl e \<Rightarrow> Inl e | Inr ss \<Rightarrow> Inr (s # ss)))"

fun toString_opt :: "(rat \<Rightarrow> string) \<Rightarrow> json option \<Rightarrow> exn + string" where
  "toString_opt ns None = Inr ''undefined''"
| "toString_opt ns (Some v) = toString ns v"

text \<open>
  \<open>parseInt(string)\<close> with no radix (ECMAScript 19.2.5): skip leading white space, read a
  sign, read a \<open>0x\<close> or \<open>0X\<close> prefix (then the radix is 16, otherwise 10), take the longest
  run of digits of the radix. The result is a number: \<open>NaN\<close> (here \<open>None\<close>) when there is
  no digit, otherwise the Number value of the signed integer the digits denote. Up to
  \<open>2^53\<close> that value is the integer itself. Beyond, it is a double near the integer or
  \<open>Infinity\<close>, as the platform rounds it: the parameter \<open>nv\<close>, given the radix and the
  integer, with \<open>None\<close> for \<open>Infinity\<close>.
\<close>

definition digit_val :: "char \<Rightarrow> nat option" where
  "digit_val c =
     (let n = of_char c :: nat in
      if 48 \<le> n \<and> n \<le> 57 then Some (n - 48)
      else if 97 \<le> n \<and> n \<le> 102 then Some (n - 87)
      else if 65 \<le> n \<and> n \<le> 70 then Some (n - 55)
      else None)"

definition is_digit :: "nat \<Rightarrow> char \<Rightarrow> bool" where
  "is_digit radix c = (case digit_val c of None \<Rightarrow> False | Some d \<Rightarrow> d < radix)"

definition digits_value :: "nat \<Rightarrow> string \<Rightarrow> nat" where
  "digits_value radix z =
     foldl (\<lambda>acc c. acc * radix + (case digit_val c of None \<Rightarrow> 0 | Some d \<Rightarrow> d)) 0 z"

definition number_value :: "(nat \<Rightarrow> nat \<Rightarrow> rat option) \<Rightarrow> nat \<Rightarrow> bool \<Rightarrow> nat \<Rightarrow> json" where
  "number_value nv radix negative mathInt =
     (if mathInt \<le> 2 ^ 53
      then JNumber (if negative then - of_nat mathInt else of_nat mathInt)
      else (case nv radix mathInt of
              None \<Rightarrow> JInfinity negative
            | Some r \<Rightarrow> JNumber (if negative then - r else r)))"

definition parseInt_string :: "(nat \<Rightarrow> nat \<Rightarrow> rat option) \<Rightarrow> string \<Rightarrow> json option" where
  "parseInt_string nv inputString =
     (let s = dropWhile is_space inputString;
          negative = startsWith s ''-'';
          s1 = (if startsWith s ''-'' \<or> startsWith s ''+'' then drop 1 s else s);
          hex = (startsWith s1 ''0x'' \<or> startsWith s1 ''0X'');
          radix = (if hex then 16 else 10 :: nat);
          s2 = (if hex then drop 2 s1 else s1);
          z = takeWhile (is_digit radix) s2
      in if z = [] then None else Some (number_value nv radix negative (digits_value radix z)))"

definition parseInt ::
  "(rat \<Rightarrow> string) \<Rightarrow> (nat \<Rightarrow> nat \<Rightarrow> rat option) \<Rightarrow> json option \<Rightarrow> exn + json option" where
  "parseInt ns nv v =
     (case toString_opt ns v of
        Inl e \<Rightarrow> Inl e
      | Inr inputString \<Rightarrow> Inr (parseInt_string nv inputString))"

text \<open>
  The coercion both plan validators apply to a numeric field:
  \<open>typeof v === "number" ? v : parseInt(v) || d\<close>. \<open>NaN\<close> and \<open>0\<close> are falsy, so
  \<open>parseInt(v) || d\<close> is \<open>or_else\<close> on the result of \<open>parseInt\<close>.
\<close>

definition coerce_number ::
  "(rat \<Rightarrow> string) \<Rightarrow> (nat \<Rightarrow> nat \<Rightarrow> rat option) \<Rightarrow> rat \<Rightarrow> json option \<Rightarrow> exn + json" where
  "coerce_number ns nv d v =
     (case v of
        Some (JNumber n) \<Rightarrow> Inr (JNumber n)
      | Some (JInfinity b) \<Rightarrow> Inr (JInfinity b)
      | other \<Rightarrow>
          (case parseInt ns nv v of
             Inl e \<Rightarrow> Inl e
           | Inr p \<Rightarrow> Inr (or_else p (JNumber d))))"

section \<open>The plan validators\<close>

text \<open>
  \<open>validateWorkoutPlan\<close>: when \<open>plan.exercises\<close> is truthy, every exercise is rebuilt as
  \<open>{...exercise, routines: exercise.routines.map(...)}\<close> and every routine as
  \<open>{...routine, sets: ..., reps: ...}\<close> with defaults 3 and 10; the plan is returned.
  The assignment \<open>plan.exercises = ...\<close> is reached only when \<open>plan\<close> is an object (no other
  value has a truthy \<open>exercises\<close>), where it replaces the property in place.
\<close>

definition fix_routine ::
  "(rat \<Rightarrow> string) \<Rightarrow> (nat \<Rightarrow> nat \<Rightarrow> rat option) \<Rightarrow> json \<Rightarrow> exn + json" where
  "fix_routine ns nv routine =
     (case get routine ''sets'' of Inl e \<Rightarrow> Inl e | Inr sets \<Rightarrow>
     (case coerce_number ns nv 3 sets of Inl e \<Rightarrow> Inl e | Inr sets' \<Rightarrow>
     (case get routine ''reps'' of Inl e \<Rightarrow> Inl e | Inr reps \<Rightarrow>
     (case coerce_number ns nv 10 reps of Inl e \<Rightarrow> Inl e | Inr reps' \<Rightarrow>
        Inr (JObject (set_key ''reps'' reps' (set_key ''sets'' sets' (spread routine))))))))"

definition fix_exercise ::
  "(rat \<Rightarrow> string) \<Rightarrow> (nat \<Rightarrow> nat \<Rightarrow> rat option) \<Rightarrow> json \<Rightarrow> exn + json" where
  "fix_exercise ns nv exercise =
     (case get exercise ''routines'' of
        Inl e \<Rightarrow> Inl e
      | Inr (Some (JArray routines)) \<Rightarrow>
          (case map_exn (fix_routine ns nv) routines of
             Inl e \<Rightarrow> Inl e
           | Inr routines' \<Rightarrow>
               Inr (JObject (set_key ''routines'' (JArray routines') (spread exercise))))
      | Inr other \<Rightarrow> Inl (TypeError ''map''))"

definition validateWorkoutPlan ::
  "(rat \<Rightarrow> string) \<Rightarrow> (nat \<Rightarrow> nat \<Rightarrow> rat option) \<Rightarrow> json \<Rightarrow> exn + json" where
  "validateWorkoutPlan ns nv plan =
     (case get plan ''exercises'' of
        Inl e \<Rightarrow> Inl e
      | Inr exercises \<Rightarrow>
          if truthy exercises then
            (case exercises of
               Some (JArray xs) \<Rightarrow>
                 (case map_exn (fix_exercise ns nv) xs of
                    Inl e \<Rightarrow> Inl e
                  | Inr xs' \<Rightarrow>
                      (case plan of
                         JObject kvs \<Rightarrow> Inr (JObject (set_key ''exercises'' (JArray xs') kvs))
                       | other \<Rightarrow> Inr plan))
             | other \<Rightarrow> Inl (TypeError ''map''))
          else Inr plan)"

text \<open>
  \<open>validateDietPlan\<close> builds a new object \<open>{dailyCalories, meals}\<close>: first the calories,
  coerced with default 2000, then each meal projected to its \<open>name\<close> and \<open>foods\<close>, either of
  which may be \<open>undefined\<close>.
\<close>

record diet_plan =
  dailyCalories :: json
  meals :: "(json option \<times> json option) list"

definition project_meal :: "json \<Rightarrow> exn + (json option \<times> json option)" where
  "project_meal meal =
     (case get meal ''name'' of
        Inl e \<Rightarrow> Inl e
      | Inr name \<Rightarrow> (case get meal ''foods'' of Inl e \<Rightarrow> Inl e | Inr foods \<Rightarrow> Inr (name, foods)))"

definition validateDietPlan ::
  "(rat \<Rightarrow> string) \<Rightarrow> (nat \<Rightarrow> nat \<Rightarrow> rat option) \<Rightarrow> json \<Rightarrow> exn + diet_plan" where
  "validateDietPlan ns nv plan =
     (case get plan ''dailyCalories'' of Inl e \<Rightarrow> Inl e | Inr dc \<Rightarrow>
     (case coerce_number ns nv 2000 dc of Inl e \<Rightarrow> Inl e | Inr dc' \<Rightarrow>
     (case get plan ''meals'' of
        Inl e \<Rightarrow> Inl e
      | Inr (Some (JArray ms)) \<Rightarrow>
          (case map_exn project_meal ms of
             Inl e \<Rightarrow> Inl e
           | Inr ms' \<Rightarrow> Inr \<lparr>dailyCalories = dc', meals = ms'\<rparr>)
      | Inr other \<Rightarrow> Inl (TypeError ''map''))))"

section \<open>The food-analysis normalizer\<close>

text \<open>
  \<open>s.replace(/p\n?/g, "")\<close> for a literal \<open>p\<close>: every match, found left to right, is
  removed together with one line feed that follows it.
\<close>

fun drop_newline :: "string \<Rightarrow> string" where
  "drop_newline [] = []"
| "drop_newline (c # cs) = (if c = CHR 0x0A then cs else c # cs)"

function remove_fence :: "string \<Rightarrow> string \<Rightarrow> string" where
  "remove_fence p [] = []"
| "remove_fence p (c # cs) =
     (if p \<noteq> [] \<and> startsWith (c # cs) p
      then remove_fence p (drop_newline (drop (length p - 1) cs))
      else c # remove_fence p cs)"
  by pat_completeness auto
termination
proof (relation "measure (\<lambda>(p, s). length s)")
  show "wf (measure (\<lambda>(p, s). length s))" by simp
next
  fix p :: string and c :: char and cs :: string
  have "length (drop_newline s) \<le> length s" for s
    by (cases s) simp_all
  then have "length (drop_newline (drop (length p - 1) cs)) \<le> length (drop (length p - 1) cs)" .
  then show "((p, drop_newline (drop (length p - 1) cs)), (p, c # cs))
      \<in> measure (\<lambda>(p, s). length s)"
    by simp
next
  fix p :: string and c :: char and cs :: string
  show "((p, cs), (p, c # cs)) \<in> measure (\<lambda>(p, s). length s)" by simp
qed

text \<open>
  The text handed to \<open>JSON.parse\<close>: the trimmed response, with its code-fence markers
  removed when it starts with one.
\<close>

definition extractJson :: "string \<Rightarrow> string" where
  "extractJson text' =
     (let jsonText = trim text' in
      if startsWith jsonText ''```json''
      then remove_fence ''```'' (remove_fence ''```json'' jsonText)
      else if startsWith jsonText ''```'' then remove_fence ''```'' jsonText
      else jsonText)"

record nutritional_info =
  protein :: json
  carbs :: json
  fat :: json
  fiber :: json

record food_analysis =
  foodName :: json
  calories :: json
  servingSize :: json
  confidence :: json
  nutritionalInfo :: nutritional_info
  description :: json

text \<open>
  The object the handler returns, from \<open>parsedData\<close>: each field is
  \<open>parsedData.field || default\<close>, evaluated in the order of the source. No field is
  converted: a truthy value of any type is returned as it is.
\<close>

definition foodResult :: "json \<Rightarrow> exn + food_analysis" where
  "foodResult parsedData =
     (case get parsedData ''foodName'' of Inl e \<Rightarrow> Inl e | Inr foodName' \<Rightarrow>
     (case get parsedData ''calories'' of Inl e \<Rightarrow> Inl e | Inr calories' \<Rightarrow>
     (case get parsedData ''servingSize'' of Inl e \<Rightarrow> Inl e | Inr servingSize' \<Rightarrow>
     (case get parsedData ''confidence'' of Inl e \<Rightarrow> Inl e | Inr confidence' \<Rightarrow>
     (case get parsedData ''nutritionalInfo'' of Inl e \<Rightarrow> Inl e | Inr info \<Rightarrow>
     (case get parsedData ''description'' of Inl e \<Rightarrow> Inl e | Inr description' \<Rightarrow>
        Inr \<lparr>foodName = or_else foodName' (JString ''Unknown Food''),
             calories = or_else calories' (JNumber 0),
             servingSize = or_else servingSize' (JString ''Unknown''),
             confidence = or_else confidence' (JString ''low''),
             nutritionalInfo =
               \<lparr>protein = or_else (get_chain info ''protein'') (JString ''N/A''),
                carbs = or_else (get_chain info ''carbs'') (JString ''N/A''),
                fat = or_else (get_chain info ''fat'') (JString ''N/A''),
                fiber = or_else (get_chain info ''fiber'') (JString ''N/A'')\<rparr>,
             description =
               or_else description' (JString ''Could not analyze the food.'')\<rparr>))))))"

text \<open>
  \<open>JSON.parse\<close> is the platform's: a parameter, \<open>None\<close> where it throws its
  \<open>SyntaxError\<close>. The normalizer of a response text is extraction, parsing and the
  construction of the result; the two plan texts are parsed as they are.
\<close>

definition normalizeFood :: "(string \<Rightarrow> json option) \<Rightarrow> string \<Rightarrow> exn + food_analysis" where
  "normalizeFood JSON_parse text' =
     (let jsonText = extractJson text' in
      case JSON_parse jsonText of
        None \<Rightarrow> Inl (SyntaxError jsonText)
      | Some parsedData \<Rightarrow> foodResult parsedData)"

definition normalizeWorkout ::
  "(string \<Rightarrow> json option) \<Rightarrow> (rat \<Rightarrow> string) \<Rightarrow> (nat \<Rightarrow> nat \<Rightarrow> rat option) \<Rightarrow> string \<Rightarrow>
     exn + json" where
  "normalizeWorkout JSON_parse ns nv workoutPlanText =
     (case JSON_parse workoutPlanText of
        None \<Rightarrow> Inl (SyntaxError workoutPlanText)
      | Some workoutPlan \<Rightarrow> validateWorkoutPlan ns nv workoutPlan)"

definition normalizeDiet ::
  "(string \<Rightarrow> json option) \<Rightarrow> (rat \<Rightarrow> string) \<Rightarrow> (nat \<Rightarrow> nat \<Rightarrow> rat option) \<Rightarrow> string \<Rightarrow>
     exn + diet_plan" where
  "normalizeDiet JSON_parse ns nv dietPlanText =
     (case JSON_parse dietPlanText of
        None \<Rightarrow> Inl (SyntaxError dietPlanText)
      | Some dietPlan \<Rightarrow> validateDietPlan ns nv dietPlan)"

section \<open>The world: environment, AI provider and database\<close>

text \<open>
  The provider is external: \<open>provider w k\<close> is what the \<open>k\<close>-th invocation of a model
  (from 0) does, either throwing (the client library or the service rejects it) or
  resolving to a response, whose \<open>text()\<close> in turn throws or returns the text. Every
  invocation is logged with the model name and the request; prompt texts are not
  transcribed. The two tables are lists in creation order. No plan is ever deleted, so
  the \<open>_id\<close> of a plan is its position in the table.
\<close>

datatype role = User | Assistant

record message =
  userId :: string
  role :: role
  content :: string
  timestamp :: int

record plan =
  userId :: string
  name :: string
  workoutPlan :: json
  dietPlan :: json
  isActive :: bool

datatype request =
    ChatRequest "(string \<times> string) list" string
  | VisionRequest string string
  | WorkoutRequest
  | DietRequest

type_synonym response = "js_thrown + string"

record world =
  GEMINI_API_KEY :: "string option"
  provider :: "nat \<Rightarrow> js_thrown + response"
  provider_log :: "(string \<times> request) list"
  chatMessages :: "message list"
  plans :: "plan list"
  now :: int
  localeDate :: string

definition callModel :: "string \<Rightarrow> request \<Rightarrow> world \<Rightarrow> (js_thrown + response) \<times> world" where
  "callModel model req w =
     (provider w (length (provider_log w)),
      w\<lparr>provider_log := provider_log w @ [(model, req)]\<rparr>)"

text \<open>A call followed by \<open>response.text()\<close>, as one fallible step.\<close>

definition callModel_text :: "string \<Rightarrow> request \<Rightarrow> world \<Rightarrow> (js_thrown + string) \<times> world" where
  "callModel_text model req w =
     (case callModel model req w of
        (Inl e, w') \<Rightarrow> (Inl e, w')
      | (Inr resp, w') \<Rightarrow> (resp, w'))"

definition key_missing :: "world \<Rightarrow> bool" where
  "key_missing w = (case GEMINI_API_KEY w of None \<Rightarrow> True | Some k \<Rightarrow> k = [])"

definition key_error :: js_thrown where
  "key_error = JsError ''GEMINI_API_KEY is not configured in environment variables''"

section \<open>generateContent: primary model, then fallback\<close>

text \<open>
  The closure of \<open>generateResponse\<close> (chat): the primary call and its \<open>text()\<close> stand in
  the \<open>try\<close>; an overload-classified failure of either leads to the fallback model,
  whose failure is not caught.
\<close>

definition generateContent_chat ::
  "(string \<times> string) list \<Rightarrow> string \<Rightarrow> world \<Rightarrow> (js_thrown + string) \<times> world" where
  "generateContent_chat conversationHistory userMessage w =
     (case callModel_text ''gemini-2.0-flash'' (ChatRequest conversationHistory userMessage) w of
        (Inr text', w') \<Rightarrow> (Inr text', w')
      | (Inl primaryError, w') \<Rightarrow>
          if isOverloaded (errorMessage primaryError)
          then callModel_text ''gemini-2.5-pro'' (ChatRequest conversationHistory userMessage) w'
          else (Inl primaryError, w'))"

text \<open>
  The closure of \<open>analyzeFoodImage\<close> (vision) returns the response itself; its \<open>text()\<close>
  is read after the retry loop.
\<close>

definition generateContent_vision ::
  "string \<Rightarrow> string \<Rightarrow> world \<Rightarrow> (js_thrown + response) \<times> world" where
  "generateContent_vision imageData mimeType w =
     (case callModel ''gemini-2.0-flash'' (VisionRequest imageData mimeType) w of
        (Inr resp, w') \<Rightarrow> (Inr resp, w')
      | (Inl primaryError, w') \<Rightarrow>
          if isOverloaded (errorMessage primaryError)
          then callModel ''gemini-2.5-pro'' (VisionRequest imageData mimeType) w'
          else (Inl primaryError, w'))"

section \<open>Chat: messages, history window, generateResponse\<close>

definition addMessage :: "string \<Rightarrow> role \<Rightarrow> string \<Rightarrow> world \<Rightarrow> world" where
  "addMessage uid r c w =
     w\<lparr>chatMessages := chatMessages w @
          [\<lparr>message.userId = uid, role = r, content = c, timestamp = now w\<rparr>]\<rparr>"

definition getMessages :: "string \<Rightarrow> world \<Rightarrow> message list" where
  "getMessages uid w = filter (\<lambda>m. message.userId m = uid) (chatMessages w)"

text \<open>
  \<open>xs.slice(start, end)\<close> (ECMAScript 23.1.3.28): a negative index counts from the end,
  and both are clamped to the array.
\<close>

definition slice :: "'a list \<Rightarrow> int \<Rightarrow> int \<Rightarrow> 'a list" where
  "slice xs start end' =
     (let len = int (length xs);
          k = (if start < 0 then max (len + start) 0 else min start len);
          final = (if end' < 0 then max (len + end') 0 else min end' len)
      in take (nat (final - k)) (drop (nat k) xs))"

definition conversationHistory :: "message list \<Rightarrow> (string \<times> string) list" where
  "conversationHistory messages =
     map (\<lambda>msg. (if role msg = User then ''user'' else ''model'', content msg))
       (slice messages (- 11) (- 1))"

definition generateResponse_catch :: "js_thrown \<Rightarrow> js_thrown" where
  "generateResponse_catch error =
     (let m = errorMessage error in
      if isOverloaded m
      then JsError ''The AI service is currently busy. Please try again in a few moments.''
      else if includes_js m ''API key'' \<or> includes_js m ''API_KEY_INVALID''
      then JsError ''API configuration error. Please contact support.''
      else if includes_js m ''quota'' \<or> includes_js m ''QUOTA_EXCEEDED''
      then JsError ''API quota exceeded. Please try again later.''
      else JsError (''Failed to generate AI response: '' @ m))"

definition generateResponse_try :: "string \<Rightarrow> string \<Rightarrow> world \<Rightarrow> (js_thrown + string) \<times> world" where
  "generateResponse_try uid userMessage w =
     (if key_missing w then (Inl key_error, w)
      else
        let w1 = addMessage uid User userMessage w;
            messages = getMessages uid w1;
            r = retryWithBackoff
                  (generateContent_chat (conversationHistory messages) userMessage) 3 2000 w1
        in case outcome r of
             Inl e \<Rightarrow> (Inl e, world_after r)
           | Inr aiResponse \<Rightarrow>
               (Inr aiResponse, addMessage uid Assistant aiResponse (world_after r)))"

definition generateResponse :: "string \<Rightarrow> string \<Rightarrow> world \<Rightarrow> (js_thrown + string) \<times> world" where
  "generateResponse uid userMessage w =
     (case generateResponse_try uid userMessage w of
        (Inl error, w') \<Rightarrow> (Inl (generateResponse_catch error), w')
      | (Inr aiResponse, w') \<Rightarrow> (Inr aiResponse, w'))"

section \<open>analyzeFoodImage\<close>

text \<open>
  \<open>engine_message\<close> is the message the engine gives the exceptions it raises itself; it is
  the platform's, a parameter like \<open>JSON.parse\<close>.
\<close>

definition analyzeFoodImage_catch :: "js_thrown \<Rightarrow> js_thrown" where
  "analyzeFoodImage_catch error =
     (let m = errorMessage error in
      if isOverloaded m
      then JsError ''The AI service is currently busy. Please try again in a few moments.''
      else if includes_js m ''API key'' \<or> includes_js m ''API_KEY_INVALID''
      then JsError ''API configuration error. Please contact support.''
      else if includes_js m ''quota'' \<or> includes_js m ''QUOTA_EXCEEDED''
      then JsError ''API quota exceeded. Please try again later.''
      else if includes_js m ''SAFETY''
      then JsError ''The image was blocked by safety filters. Please try a different image.''
      else if includes_js m ''invalid'' \<and> includes_js m ''image''
      then JsError ''Invalid image format. Please try a different image.''
      else JsError (''Failed to analyze the image: '' @ m))"

definition analyzeFoodImage_try ::
  "(string \<Rightarrow> json option) \<Rightarrow> (exn \<Rightarrow> string) \<Rightarrow> string \<Rightarrow> string \<Rightarrow> world \<Rightarrow>
     (js_thrown + food_analysis) \<times> world" where
  "analyzeFoodImage_try JSON_parse engine_message imageData mimeType w =
     (if key_missing w then (Inl key_error, w)
      else
        let r = retryWithBackoff (generateContent_vision imageData mimeType) 3 2000 w in
        case outcome r of
          Inl e \<Rightarrow> (Inl e, world_after r)
        | Inr resp \<Rightarrow>
            (case resp of
               Inl e \<Rightarrow> (Inl e, world_after r)
             | Inr text' \<Rightarrow>
                 (case normalizeFood JSON_parse text' of
                    Inl x \<Rightarrow> (Inl (JsError (engine_message x)), world_after r)
                  | Inr result \<Rightarrow> (Inr result, world_after r))))"

definition analyzeFoodImage ::
  "(string \<Rightarrow> json option) \<Rightarrow> (exn \<Rightarrow> string) \<Rightarrow> string \<Rightarrow> string \<Rightarrow> world \<Rightarrow>
     (js_thrown + food_analysis) \<times> world" where
  "analyzeFoodImage JSON_parse engine_message imageData mimeType w =
     (case analyzeFoodImage_try JSON_parse engine_message imageData mimeType w of
        (Inl error, w') \<Rightarrow> (Inl (analyzeFoodImage_catch error), w')
      | (Inr result, w') \<Rightarrow> (Inr result, w'))"

section \<open>Plans: createPlan and generatePlan\<close>

text \<open>
  The handler of \<open>createPlan\<close> on the plans table: it collects the owner's active plans,
  patches each, by its \<open>_id\<close>, to \<open>isActive: false\<close>, inserts the arguments as a new
  document and returns its \<open>_id\<close>.
\<close>

definition activePlans :: "plan list \<Rightarrow> string \<Rightarrow> nat list" where
  "activePlans ps uid =
     filter (\<lambda>i. plan.userId (ps ! i) = uid \<and> isActive (ps ! i)) [0..<length ps]"

definition patch_inactive :: "plan list \<Rightarrow> nat \<Rightarrow> plan list" where
  "patch_inactive ps i = ps[i := (ps ! i)\<lparr>isActive := False\<rparr>]"

definition createPlan :: "plan list \<Rightarrow> plan \<Rightarrow> nat \<times> plan list" where
  "createPlan ps args =
     (let ps' = foldl patch_inactive ps (activePlans ps (plan.userId args))
      in (length ps', ps' @ [args]))"

text \<open>Calls of \<open>createPlan\<close> one after the other, on the table alone.\<close>

fun createPlans :: "plan list \<Rightarrow> plan list \<Rightarrow> plan list" where
  "createPlans ps [] = ps"
| "createPlans ps (a # as) = createPlans (snd (createPlan ps a)) as"

text \<open>
  The argument validators of \<open>createPlan\<close>: \<open>v.object\<close> accepts an object with exactly the
  listed fields, each accepted by its validator.
\<close>

definition v_string :: "json \<Rightarrow> bool" where
  "v_string j = (case j of JString s \<Rightarrow> True | other \<Rightarrow> False)"

definition v_number :: "json \<Rightarrow> bool" where
  "v_number j = is_number (Some j)"

definition v_array :: "(json \<Rightarrow> bool) \<Rightarrow> json \<Rightarrow> bool" where
  "v_array p j = (case j of JArray xs \<Rightarrow> list_all p xs | other \<Rightarrow> False)"

definition v_object :: "(string \<times> (json \<Rightarrow> bool)) list \<Rightarrow> json \<Rightarrow> bool" where
  "v_object fs j =
     (case j of
        JObject kvs \<Rightarrow>
          list_all (\<lambda>(k, v). case map_of fs k of None \<Rightarrow> False | Some p \<Rightarrow> p v) kvs \<and>
          list_all (\<lambda>(k, p). map_of kvs k \<noteq> None) fs
      | other \<Rightarrow> False)"

definition v_workoutPlan :: "json \<Rightarrow> bool" where
  "v_workoutPlan =
     v_object
       [(''schedule'', v_array v_string),
        (''exercises'', v_array (v_object
           [(''day'', v_string),
            (''routines'', v_array (v_object
               [(''name'', v_string), (''sets'', v_number), (''reps'', v_number)]))]))]"

definition v_dietPlan :: "json \<Rightarrow> bool" where
  "v_dietPlan =
     v_object
       [(''dailyCalories'', v_number),
        (''meals'', v_array (v_object
           [(''name'', v_string), (''foods'', v_array v_string)]))]"

definition runMutation_createPlan :: "plan \<Rightarrow> world \<Rightarrow> (exn + nat) \<times> world" where
  "runMutation_createPlan args w =
     (if v_workoutPlan (workoutPlan args) \<and> v_dietPlan (dietPlan args)
      then (case createPlan (plans w) args of (planId, ps') \<Rightarrow> (Inr planId, w\<lparr>plans := ps'\<rparr>))
      else (Inl ArgumentValidationError, w))"

text \<open>
  The diet plan as sent to the mutation: a property whose value is \<open>undefined\<close> is not
  sent.
\<close>

definition meal_json :: "json option \<times> json option \<Rightarrow> json" where
  "meal_json m =
     JObject
       ((case fst m of None \<Rightarrow> [] | Some v \<Rightarrow> [(''name'', v)]) @
        (case snd m of None \<Rightarrow> [] | Some v \<Rightarrow> [(''foods'', v)]))"

definition diet_json :: "diet_plan \<Rightarrow> json" where
  "diet_json d =
     JObject [(''dailyCalories'', dailyCalories d),
              (''meals'', JArray (map meal_json (meals d)))]"

text \<open>
  \<open>generatePlan\<close>: two provider calls with \<open>gemini-2.5-pro\<close>, each parsed and validated,
  then the \<open>createPlan\<close> mutation. Of its arguments only \<open>userId\<close> and \<open>fitness_goal\<close> are
  used outside the prompt texts. The handler has no \<open>try\<close>: every exception leaves it
  as it is.
\<close>

definition generatePlan ::
  "(string \<Rightarrow> json option) \<Rightarrow> (rat \<Rightarrow> string) \<Rightarrow> (nat \<Rightarrow> nat \<Rightarrow> rat option) \<Rightarrow>
     (exn \<Rightarrow> string) \<Rightarrow> string \<Rightarrow> string \<Rightarrow> world \<Rightarrow> (js_thrown + nat) \<times> world" where
  "generatePlan JSON_parse ns nv engine_message uid fitness_goal w =
     (case callModel_text ''gemini-2.5-pro'' WorkoutRequest w of
        (Inl e, w1) \<Rightarrow> (Inl e, w1)
      | (Inr workoutPlanText, w1) \<Rightarrow>
     (case normalizeWorkout JSON_parse ns nv workoutPlanText of
        Inl x \<Rightarrow> (Inl (JsError (engine_message x)), w1)
      | Inr workoutPlan' \<Rightarrow>
     (case callModel_text ''gemini-2.5-pro'' DietRequest w1 of
        (Inl e, w2) \<Rightarrow> (Inl e, w2)
      | (Inr dietPlanText, w2) \<Rightarrow>
     (case normalizeDiet JSON_parse ns nv dietPlanText of
        Inl x \<Rightarrow> (Inl (JsError (engine_message x)), w2)
      | Inr dietPlan' \<Rightarrow>
     (case runMutation_createPlan
             \<lparr>plan.userId = uid, name = fitness_goal @ '' Plan - '' @ localeDate w2,
              workoutPlan = workoutPlan', dietPlan = diet_json dietPlan', isActive = True\<rparr> w2 of
        (Inl x, w3) \<Rightarrow> (Inl (JsError (engine_message x)), w3)
      | (Inr planId, w3) \<Rightarrow> (Inr planId, w3))))))"

section \<open>Concrete worlds and platform functions for the instances\<close>

text \<open>
  \<open>busy_world\<close>: the provider rejects its first four calls as overloaded, then answers.
  \<open>keyless_world\<close>: no credential is configured and the provider rejects every call.
  \<open>fallback_denied_world\<close>: the first call is rejected as overloaded, every later one
  for an exhausted quota.
\<close>

definition busy_world :: world where
  "busy_world =
     \<lparr>GEMINI_API_KEY = Some ''key'',
      provider = (\<lambda>k. if k < 4
                       then Inl (JsError ''[503 Service Unavailable] The model is overloaded.'')
                       else Inr (Inr ''{}'')),
      provider_log = [], chatMessages = [], plans = [], now = 0, localeDate = ''1/1/2025''\<rparr>"

definition keyless_world :: world where
  "keyless_world =
     \<lparr>GEMINI_API_KEY = None,
      provider = (\<lambda>k. Inl (JsError ''[400 Bad Request] API key not valid.'')),
      provider_log = [], chatMessages = [], plans = [], now = 0, localeDate = ''1/1/2025''\<rparr>"

definition fallback_denied_world :: world where
  "fallback_denied_world =
     \<lparr>GEMINI_API_KEY = Some ''key'',
      provider = (\<lambda>k. if k = 0
                       then Inl (JsError ''[503 Service Unavailable] The model is overloaded.'')
                       else Inl (JsError ''[429 Too Many Requests] Resource has been exhausted.'')),
      provider_log = [], chatMessages = [], plans = [], now = 0, localeDate = ''1/1/2025''\<rparr>"

text \<open>A plan document with the fields the activation claims depend on.\<close>

definition example_plan :: "string \<Rightarrow> string \<Rightarrow> bool \<Rightarrow> plan" where
  "example_plan uid nm act =
     \<lparr>plan.userId = uid, name = nm, workoutPlan = JNull, dietPlan = JNull, isActive = act\<rparr>"

text \<open>
  \<open>log_extends Q w w'\<close>: the provider log of \<open>w'\<close> is that of \<open>w\<close> followed by calls that
  all satisfy \<open>Q\<close>.
\<close>

definition log_extends :: "(string \<times> request \<Rightarrow> bool) \<Rightarrow> world \<Rightarrow> world \<Rightarrow> bool" where
  "log_extends Q w w' =
     (take (length (provider_log w)) (provider_log w') = provider_log w \<and>
      list_all Q (drop (length (provider_log w)) (provider_log w')))"

text \<open>
  \<open>twelve_turns_world\<close>: user \<open>u\<close> has twelve stored turns \<open>m1\<close> to \<open>m12\<close>, interleaved with
  turns of another user.
\<close>

definition turn :: "string \<Rightarrow> role \<Rightarrow> string \<Rightarrow> message" where
  "turn uid r c = \<lparr>message.userId = uid, role = r, content = c, timestamp = 0\<rparr>"

definition twelve_turns_world :: world where
  "twelve_turns_world =
     \<lparr>GEMINI_API_KEY = Some ''key'',
      provider = (\<lambda>k. Inr (Inr ''Rest one day.'')),
      provider_log = [],
      chatMessages =
        [turn ''u'' User ''m1'', turn ''u'' Assistant ''m2'', turn ''v'' User ''x1'',
         turn ''u'' User ''m3'', turn ''u'' Assistant ''m4'', turn ''u'' User ''m5'',
         turn ''u'' Assistant ''m6'', turn ''v'' Assistant ''x2'', turn ''u'' User ''m7'',
         turn ''u'' Assistant ''m8'', turn ''u'' User ''m9'', turn ''u'' Assistant ''m10'',
         turn ''u'' User ''m11'', turn ''u'' Assistant ''m12''],
      plans = [], now = 0, localeDate = ''1/1/2025''\<rparr>"

text \<open>
  Platform functions for the instances. \<open>integer_toString\<close> is \<open>Number::toString\<close> on the
  integers of magnitude below \<open>10^21\<close> (the decimal numeral); no instance converts another
  number. \<open>overflow_value\<close> stands for the rounding of integers above \<open>2^53\<close>; no
  instance reads one. \<open>example_parse\<close> is \<open>JSON.parse\<close> on the texts listed; the only
  other text an instance gives it is not JSON. \<open>example_engine_message\<close> stands for the
  engine's messages.
\<close>

definition overflow_value :: "nat \<Rightarrow> nat \<Rightarrow> rat option" where
  "overflow_value radix mathInt = None"

definition integer_toString :: "rat \<Rightarrow> string" where
  "integer_toString r =
     (let k = \<lfloor>r\<rfloor> in (if k < 0 then ''-'' else []) @ decimal (nat \<bar>k\<bar>))"

definition example_parse :: "string \<Rightarrow> json option" where
  "example_parse =
     map_of
       [(''{\"foodName\":\"Apple\",\"calories\":95}\<newline>'',
           JObject [(''foodName'', JString ''Apple''), (''calories'', JNumber 95)]),
        (''{\"dailyCalories\":2000}'', JObject [(''dailyCalories'', JNumber 2000)]),
        (''{\"exercises\":[{\"day\":\"Monday\"}]}'',
           JObject [(''exercises'', JArray [JObject [(''day'', JString ''Monday'')]])]),
        (''{\"dailyCalories\":\"1800\",\"meals\":[{\"name\":\"Lunch\",\"foods\":[\"Rice\"]}]}'',
           JObject [(''dailyCalories'', JString ''1800''),
                    (''meals'', JArray [JObject [(''name'', JString ''Lunch''),
                                                 (''foods'', JArray [JString ''Rice''])]])]),
        (''{\"exercises\":[{\"day\":\"Monday\",\"routines\":[{\"name\":\"Plank\",\"reps\":\"ten\"}]}]}'',
           JObject [(''exercises'', JArray
              [JObject [(''day'', JString ''Monday''),
                        (''routines'', JArray [JObject [(''name'', JString ''Plank''),
                                                        (''reps'', JString ''ten'')]])]])]),
        (''{\"dailyCalories\":{\"toString\":null},\"meals\":[]}'',
           JObject [(''dailyCalories'', JObject [(''toString'', JNull)]),
                    (''meals'', JArray [])]),
        (''5'', JNumber 5),
        (''null'', JNull)]"

fun example_engine_message :: "exn \<Rightarrow> string" where
  "example_engine_message (TypeError k) = ''TypeError on '' @ k"
| "example_engine_message (SyntaxError t) = ''SyntaxError in '' @ t"
| "example_engine_message ArgumentValidationError = ''ArgumentValidationError''"


text \<open>
  The routines of a workout plan, across its exercises, in order; and the property the
  data model asks of \<open>sets\<close> and \<open>reps\<close>: an integer that is at least 1.
\<close>

definition routines_of :: "json \<Rightarrow> json list" where
  "routines_of exercise =
     (case get_chain (Some exercise) ''routines'' of Some (JArray rs) \<Rightarrow> rs | other \<Rightarrow> [])"

definition plan_routines :: "json \<Rightarrow> json list" where
  "plan_routines plan' =
     (case get_chain (Some plan') ''exercises'' of
        Some (JArray xs) \<Rightarrow> concat (map routines_of xs)
      | other \<Rightarrow> [])"

definition integer_ge_1 :: "json option \<Rightarrow> bool" where
  "integer_ge_1 v = (case v of Some (JNumber n) \<Rightarrow> n = of_int \<lfloor>n\<rfloor> \<and> 1 \<le> n | other \<Rightarrow> False)"

text \<open>
  A workout plan as the model may return it, and what \<open>validateWorkoutPlan\<close> makes of it.
\<close>

definition plank_plan :: json where
  "plank_plan =
     JObject
       [(''schedule'', JArray [JString ''Monday'']),
        (''exercises'', JArray
           [JObject
              [(''day'', JString ''Monday''),
               (''routines'', JArray
                  [JObject [(''name'', JString ''Pull-ups''), (''sets'', JNumber 4),
                            (''reps'', JString ''As many as possible'')],
                   JObject [(''name'', JString ''Plank''), (''sets'', JNumber 0),
                            (''reps'', JNumber (- 5))]])]])]"

definition plank_plan_fixed :: json where
  "plank_plan_fixed =
     JObject
       [(''schedule'', JArray [JString ''Monday'']),
        (''exercises'', JArray
           [JObject
              [(''day'', JString ''Monday''),
               (''routines'', JArray
                  [JObject [(''name'', JString ''Pull-ups''), (''sets'', JNumber 4),
                            (''reps'', JNumber 10)],
                   JObject [(''name'', JString ''Plank''), (''sets'', JNumber 0),
                            (''reps'', JNumber (- 5))]])]])]"











section \<open>The retry loop\<close>

lemma overloaded_503: "isOverloaded ''[503 Service Unavailable] The model is overloaded.''"
  by (simp add: isOverloaded_def startsWith_def)

lemma not_overloaded_400: "\<not> isOverloaded ''[400 Bad Request] API key not valid.''"
  by (simp add: isOverloaded_def startsWith_def)

lemma not_overloaded_429:
  "\<not> isOverloaded ''[429 Too Many Requests] Resource has been exhausted.''"
  by (simp add: isOverloaded_def startsWith_def)

lemma retry_loop_transient:
  "transient_then_success fn w k v \<Longrightarrow> int (i + k) < maxRetries \<Longrightarrow>
   outcome (retry_loop fn maxRetries d i le w n ds) = Inr v \<and>
   attempts (retry_loop fn maxRetries d i le w n ds) = n + Suc k \<and>
   waits (retry_loop fn maxRetries d i le w n ds) = ds @ map (\<lambda>j. d * 2 ^ (i + j)) [0..<k]"
proof (induction k arbitrary: i le w n ds)
  case 0
  then show ?case
    by (cases "fn w") (simp add: retry_loop.simps [of fn maxRetries d i le w n ds])
next
  case (Suc k)
  obtain r w' where fw: "fn w = (r, w')" by (cases "fn w")
  with Suc.prems(1) obtain e where r: "r = Inl e" and ov: "isOverloaded (errorMessage e)"
    and rest: "transient_then_success fn w' k v"
    by (cases r) auto
  from Suc.prems(2) have lt: "int i < maxRetries - 1" and lt': "int i < maxRetries"
    and nxt: "int (Suc i + k) < maxRetries" by simp_all
  have step: "retry_loop fn maxRetries d i le w n ds =
      retry_loop fn maxRetries d (Suc i) (Some e) w' (Suc n) (ds @ [d * 2 ^ i])"
    using fw r ov lt lt' by (simp add: retry_loop.simps [of fn maxRetries d i le w n ds])
  show ?case
    unfolding step using Suc.IH [OF rest nxt, of "Some e" "Suc n" "ds @ [d * 2 ^ i]"]
    by (simp add: map_upt_Suc del: upt_Suc)
qed

text \<open>
  At whichever attempt a failure is not overload-classified, that attempt is the last:
  no delay is added and the error is the outcome.
\<close>

lemma retry_loop_nontransient:
  "fn w = (Inl e, w') \<Longrightarrow> \<not> isOverloaded (errorMessage e) \<Longrightarrow> int i < maxRetries \<Longrightarrow>
   retry_loop fn maxRetries d i le w n ds =
     \<lparr>outcome = Inl e, world_after = w', attempts = Suc n, waits = ds\<rparr>"
  by (simp add: retry_loop.simps [of fn maxRetries d i le w n ds])

text \<open>
  C1. When the wrapped call throws overload-classified errors \<open>k\<close> times in a row, with
  \<open>k < maxRetries\<close>, and then succeeds with \<open>v\<close>, \<open>retryWithBackoff\<close> returns \<open>v\<close> after
  \<open>k + 1\<close> calls, and the wait after failure number \<open>i\<close> (from 0), before the next attempt,
  is \<open>initialDelay * 2 ^ i\<close>, for \<open>i = 0, ..., k - 1\<close>. With \<open>maxRetries = 3\<close>,
  \<open>initialDelay = 2000\<close> and two failures the waits are 2000 and 4000, the second before
  the third and last attempt (the instance below).
\<close>

theorem retryWithBackoff_transient_then_success:
  assumes "transient_then_success fn w k v" and "int k < maxRetries"
  shows "outcome (retryWithBackoff fn maxRetries initialDelay w) = Inr v \<and>
         attempts (retryWithBackoff fn maxRetries initialDelay w) = Suc k \<and>
         waits (retryWithBackoff fn maxRetries initialDelay w) =
           map (\<lambda>i. initialDelay * 2 ^ i) [0..<k]"
  using retry_loop_transient [of fn w k v 0 maxRetries initialDelay None 0 "[]"] assms
  by (simp add: retryWithBackoff_def)

theorem retryWithBackoff_transient_then_success_witness:
  "outcome (retryWithBackoff (generateContent_vision ''img'' ''image/png'') 3 2000 busy_world)
     = Inr (Inr ''{}'') \<and>
   attempts (retryWithBackoff (generateContent_vision ''img'' ''image/png'') 3 2000 busy_world)
     = 3 \<and>
   waits (retryWithBackoff (generateContent_vision ''img'' ''image/png'') 3 2000 busy_world)
     = [2000, 4000]"
proof -
  have h: "transient_then_success (generateContent_vision ''img'' ''image/png'') busy_world 2
             (Inr ''{}'')"
    by (simp add: numeral_2_eq_2 generateContent_vision_def callModel_def busy_world_def
          overloaded_503)
  have u: "[0..<2] = [0, Suc 0]" by (simp add: upt_rec)
  show ?thesis
    using retryWithBackoff_transient_then_success
      [of "generateContent_vision ''img'' ''image/png''" busy_world 2 "Inr ''{}''" 3 2000] h
    by (simp add: u)
qed

text \<open>
  C2. When the wrapped call throws an error whose message contains neither
  \<open>overloaded\<close> nor \<open>503\<close>, \<open>retryWithBackoff\<close> (with at least one attempt allowed, as at
  both call sites and by default) calls it exactly once, waits for nothing and throws
  that error.
\<close>

theorem retryWithBackoff_nontransient:
  assumes "fn w = (Inl e, w')" and "\<not> isOverloaded (errorMessage e)" and "0 < maxRetries"
  shows "retryWithBackoff fn maxRetries initialDelay w =
           \<lparr>outcome = Inl e, world_after = w', attempts = 1, waits = []\<rparr>"
  using retry_loop_nontransient [of fn w e w' 0 maxRetries initialDelay None 0 "[]"] assms
  by (simp add: retryWithBackoff_def)

theorem retryWithBackoff_nontransient_witness:
  "retryWithBackoff (generateContent_vision ''img'' ''image/png'') 3 2000 keyless_world =
     \<lparr>outcome = Inl (JsError ''[400 Bad Request] API key not valid.''),
      world_after =
        keyless_world\<lparr>provider_log := [(''gemini-2.0-flash'', VisionRequest ''img'' ''image/png'')]\<rparr>,
      attempts = 1, waits = []\<rparr>"
proof -
  have h: "generateContent_vision ''img'' ''image/png'' keyless_world =
      (Inl (JsError ''[400 Bad Request] API key not valid.''),
       keyless_world\<lparr>provider_log := [(''gemini-2.0-flash'', VisionRequest ''img'' ''image/png'')]\<rparr>)"
    by (simp add: generateContent_vision_def callModel_def keyless_world_def not_overloaded_400)
  have n: "\<not> isOverloaded (errorMessage (JsError ''[400 Bad Request] API key not valid.''))"
    by (simp add: not_overloaded_400)
  show ?thesis
    using retryWithBackoff_nontransient
      [of "generateContent_vision ''img'' ''image/png''" keyless_world
          "JsError ''[400 Bad Request] API key not valid.''"
          "keyless_world\<lparr>provider_log :=
             [(''gemini-2.0-flash'', VisionRequest ''img'' ''image/png'')]\<rparr>" 3 2000]
      h n
    by simp
qed

section \<open>Fallback inside the retry loop\<close>

text \<open>
  When the primary call is rejected as overloaded and the fallback call is rejected too,
  the closure throws the fallback's error, after two provider calls.
\<close>

lemma generateContent_vision_fallback_fails:
  assumes "provider w (length (provider_log w)) = Inl e1" and "isOverloaded (errorMessage e1)"
    and "provider w (Suc (length (provider_log w))) = Inl e2"
  shows "generateContent_vision imageData mimeType w =
     (Inl e2, w\<lparr>provider_log := provider_log w @
        [(''gemini-2.0-flash'', VisionRequest imageData mimeType),
         (''gemini-2.5-pro'', VisionRequest imageData mimeType)]\<rparr>)"
  using assms by (simp add: generateContent_vision_def callModel_def)

lemma generateContent_chat_fallback_fails:
  assumes "provider w (length (provider_log w)) = Inl e1" and "isOverloaded (errorMessage e1)"
    and "provider w (Suc (length (provider_log w))) = Inl e2"
  shows "generateContent_chat h m w =
     (Inl e2, w\<lparr>provider_log := provider_log w @
        [(''gemini-2.0-flash'', ChatRequest h m), (''gemini-2.5-pro'', ChatRequest h m)]\<rparr>)"
  using assms by (simp add: generateContent_chat_def callModel_text_def callModel_def)

text \<open>
  C10. When the primary model call fails with an overload-classified error and the
  fallback call then fails with an error that is not overload-classified, the retry loop
  sees the fallback's error: it does not retry, waits for nothing and throws the
  fallback's error after one attempt (two provider calls), in the vision closure and in
  the chat closure alike.
\<close>

theorem fallback_error_propagates_unretried:
  assumes "provider w (length (provider_log w)) = Inl e1" and "isOverloaded (errorMessage e1)"
    and "provider w (Suc (length (provider_log w))) = Inl e2"
    and "\<not> isOverloaded (errorMessage e2)" and "0 < maxRetries"
  shows "retryWithBackoff (generateContent_vision imageData mimeType) maxRetries initialDelay w =
           \<lparr>outcome = Inl e2,
            world_after = w\<lparr>provider_log := provider_log w @
              [(''gemini-2.0-flash'', VisionRequest imageData mimeType),
               (''gemini-2.5-pro'', VisionRequest imageData mimeType)]\<rparr>,
            attempts = 1, waits = []\<rparr> \<and>
         retryWithBackoff (generateContent_chat h m) maxRetries initialDelay w =
           \<lparr>outcome = Inl e2,
            world_after = w\<lparr>provider_log := provider_log w @
              [(''gemini-2.0-flash'', ChatRequest h m), (''gemini-2.5-pro'', ChatRequest h m)]\<rparr>,
            attempts = 1, waits = []\<rparr>"
proof -
  have pos: "int 0 < maxRetries" using assms(5) by simp
  note v = generateContent_vision_fallback_fails [OF assms(1-3), of imageData mimeType]
  note c = generateContent_chat_fallback_fails [OF assms(1-3), of h m]
  show ?thesis
    unfolding retryWithBackoff_def
    using retry_loop_nontransient [where fn = "generateContent_vision imageData mimeType",
        OF v assms(4) pos, of initialDelay None 0 "[]"]
      retry_loop_nontransient [where fn = "generateContent_chat h m",
        OF c assms(4) pos, of initialDelay None 0 "[]"]
    by simp
qed

theorem fallback_error_propagates_unretried_witness:
  "retryWithBackoff (generateContent_vision ''img'' ''image/png'') 3 2000 fallback_denied_world =
     \<lparr>outcome = Inl (JsError ''[429 Too Many Requests] Resource has been exhausted.''),
      world_after = fallback_denied_world\<lparr>provider_log :=
        [(''gemini-2.0-flash'', VisionRequest ''img'' ''image/png''),
         (''gemini-2.5-pro'', VisionRequest ''img'' ''image/png'')]\<rparr>,
      attempts = 1, waits = []\<rparr> \<and>
   retryWithBackoff (generateContent_chat [] ''hello'') 3 2000 fallback_denied_world =
     \<lparr>outcome = Inl (JsError ''[429 Too Many Requests] Resource has been exhausted.''),
      world_after = fallback_denied_world\<lparr>provider_log :=
        [(''gemini-2.0-flash'', ChatRequest [] ''hello''),
         (''gemini-2.5-pro'', ChatRequest [] ''hello'')]\<rparr>,
      attempts = 1, waits = []\<rparr>"
  using fallback_error_propagates_unretried
    [of fallback_denied_world "JsError ''[503 Service Unavailable] The model is overloaded.''"
        "JsError ''[429 Too Many Requests] Resource has been exhausted.''" 3
        "''img''" "''image/png''" 2000 "[]" "''hello''"]
  by (simp add: fallback_denied_world_def overloaded_503 not_overloaded_429)

section \<open>The activation invariant of createPlan\<close>

lemma length_patches: "length (foldl patch_inactive ps js) = length ps"
  by (induction js arbitrary: ps) (simp_all add: patch_inactive_def)

lemma nth_patches:
  "j < length ps \<Longrightarrow>
   foldl patch_inactive ps js ! j = (if j \<in> set js then (ps ! j)\<lparr>isActive := False\<rparr> else ps ! j)"
proof (induction js arbitrary: ps)
  case Nil
  then show ?case by simp
next
  case (Cons i js)
  let ?ps = "patch_inactive ps i"
  have len: "j < length ?ps" using Cons.prems by (simp add: patch_inactive_def)
  have "foldl patch_inactive ps (i # js) ! j = foldl patch_inactive ?ps js ! j" by simp
  also have "\<dots> = (if j \<in> set js then (?ps ! j)\<lparr>isActive := False\<rparr> else ?ps ! j)"
    by (rule Cons.IH [OF len])
  also have "\<dots> = (if j \<in> set (i # js) then (ps ! j)\<lparr>isActive := False\<rparr> else ps ! j)"
    using Cons.prems by (cases "j = i") (simp_all add: patch_inactive_def)
  finally show ?case .
qed

lemma patches_eq_map:
  "foldl patch_inactive ps (activePlans ps uid) =
   map (\<lambda>p. if plan.userId p = uid \<and> isActive p then p\<lparr>isActive := False\<rparr> else p) ps"
  by (rule nth_equalityI) (auto simp: length_patches nth_patches activePlans_def)

lemma createPlan_eq:
  "createPlan ps a =
     (length ps,
      map (\<lambda>p. if plan.userId p = plan.userId a \<and> isActive p then p\<lparr>isActive := False\<rparr> else p) ps
        @ [a])"
  by (simp add: createPlan_def Let_def patches_eq_map)

lemma createPlans_append:
  "createPlans ps (xs @ ys) = createPlans (createPlans ps xs) ys"
  by (induction xs arbitrary: ps) simp_all

lemma no_active_after_patches:
  "filter (\<lambda>p. plan.userId p = u \<and> isActive p)
     (map (\<lambda>p. if plan.userId p = u \<and> isActive p then p\<lparr>isActive := False\<rparr> else p) ps) = []"
  by (induction ps) auto

lemma others_kept_by_patches:
  "u' \<noteq> u \<Longrightarrow>
   filter (\<lambda>p. plan.userId p = u \<and> isActive p)
     (map (\<lambda>p. if plan.userId p = u' \<and> isActive p then p\<lparr>isActive := False\<rparr> else p) ps) =
   filter (\<lambda>p. plan.userId p = u \<and> isActive p) ps"
  by (induction ps) auto

lemma active_after_createPlan_same:
  "filter (\<lambda>p. plan.userId p = plan.userId a \<and> isActive p) (snd (createPlan ps a)) =
     (if isActive a then [a] else [])"
  by (simp add: createPlan_eq no_active_after_patches)

lemma active_after_createPlan_other:
  "plan.userId b \<noteq> u \<Longrightarrow>
   filter (\<lambda>p. plan.userId p = u \<and> isActive p) (snd (createPlan ps b)) =
   filter (\<lambda>p. plan.userId p = u \<and> isActive p) ps"
  by (simp add: createPlan_eq others_kept_by_patches)

lemma active_after_createPlans_others:
  "\<forall>b \<in> set bs. plan.userId b \<noteq> u \<Longrightarrow>
   filter (\<lambda>p. plan.userId p = u \<and> isActive p) (createPlans ps bs) =
   filter (\<lambda>p. plan.userId p = u \<and> isActive p) ps"
  by (induction bs arbitrary: ps) (simp_all add: active_after_createPlan_other)

text \<open>
  C4. Every \<open>createPlan\<close> sets \<open>isActive\<close> to false on each plan of the owner that was
  active and then appends the new plan. So after any sequence of calls, once the last
  call for an owner had \<open>isActive = true\<close> (calls for other owners may follow), exactly
  one plan of that owner is active: the one created last. This covers \<open>N\<close> calls in a row
  for one owner, each with \<open>isActive = true\<close>, from any table.
\<close>

theorem createPlan_single_active:
  assumes "isActive a" and "\<forall>b \<in> set post. plan.userId b \<noteq> plan.userId a"
  shows "createPlan ps a =
           (length ps,
            map (\<lambda>p. if plan.userId p = plan.userId a \<and> isActive p
                      then p\<lparr>isActive := False\<rparr> else p) ps @ [a]) \<and>
         filter (\<lambda>p. plan.userId p = plan.userId a \<and> isActive p)
           (createPlans ps (pre @ a # post)) = [a]"
proof -
  have "createPlans ps (pre @ a # post) =
        createPlans (snd (createPlan (createPlans ps pre) a)) post"
    by (simp add: createPlans_append)
  then have "filter (\<lambda>p. plan.userId p = plan.userId a \<and> isActive p)
               (createPlans ps (pre @ a # post)) =
             filter (\<lambda>p. plan.userId p = plan.userId a \<and> isActive p)
               (snd (createPlan (createPlans ps pre) a))"
    using active_after_createPlans_others [OF assms(2)] by simp
  also have "\<dots> = [a]"
    using assms(1) by (simp add: active_after_createPlan_same)
  finally show ?thesis by (simp add: createPlan_eq)
qed

theorem createPlan_single_active_witness:
  "createPlan [example_plan ''u1'' ''first'' True, example_plan ''u2'' ''other'' True]
       (example_plan ''u1'' ''third'' True) =
     (2, [example_plan ''u1'' ''first'' False, example_plan ''u2'' ''other'' True,
          example_plan ''u1'' ''third'' True]) \<and>
   filter (\<lambda>p. plan.userId p = ''u1'' \<and> isActive p)
     (createPlans [example_plan ''u1'' ''first'' True, example_plan ''u2'' ''other'' True]
        [example_plan ''u1'' ''second'' True, example_plan ''u1'' ''third'' True,
         example_plan ''u2'' ''fourth'' True]) = [example_plan ''u1'' ''third'' True]"
  using createPlan_single_active
    [of "example_plan ''u1'' ''third'' True" "[example_plan ''u2'' ''fourth'' True]"
        "[example_plan ''u1'' ''first'' True, example_plan ''u2'' ''other'' True]"
        "[example_plan ''u1'' ''second'' True]"]
  by (simp add: example_plan_def)

section \<open>The history window of generateResponse\<close>

lemma slice_last_ten:
  "length xs = 12 \<Longrightarrow> slice (xs @ [x]) (- 11) (- 1) = drop 2 xs"
  by (simp add: slice_def Let_def)

lemma getMessages_addMessage:
  "getMessages uid (addMessage uid r c w) =
     getMessages uid w @ [\<lparr>message.userId = uid, role = r, content = c, timestamp = now w\<rparr>]"
  by (simp add: getMessages_def addMessage_def)

lemma log_extends_refl: "log_extends Q w w"
  by (simp add: log_extends_def)

lemma log_extends_trans:
  assumes "log_extends Q w w'" and "log_extends Q w' w''"
  shows "log_extends Q w w''"
proof -
  from assms(1) obtain e1 where e1: "provider_log w' = provider_log w @ e1" and q1: "list_all Q e1"
    unfolding log_extends_def by (metis append_take_drop_id)
  from assms(2) obtain e2 where e2: "provider_log w'' = provider_log w' @ e2" and q2: "list_all Q e2"
    unfolding log_extends_def by (metis append_take_drop_id)
  show ?thesis using e1 e2 q1 q2 by (simp add: log_extends_def)
qed

lemma log_extends_chat:
  "log_extends (\<lambda>c. snd c = ChatRequest h m) w (snd (generateContent_chat h m w)) \<and>
   length (provider_log w) < length (provider_log (snd (generateContent_chat h m w)))"
  by (simp add: log_extends_def generateContent_chat_def callModel_text_def callModel_def
      split: sum.splits prod.splits)

lemma retry_loop_log:
  assumes step: "\<And>w. log_extends Q w (snd (fn w))"
  shows "log_extends Q w (world_after (retry_loop fn maxRetries d i le w n ds))"
  using step
proof (induction fn maxRetries d i le w n ds rule: retry_loop.induct)
  case (1 fn maxRetries initialDelay i lastError w n ds)
  note step = "1.prems"
  show ?case
  proof (cases "int i < maxRetries")
    case False
    then show ?thesis
      by (simp add: retry_loop.simps [of fn maxRetries initialDelay i lastError w n ds]
          log_extends_refl)
  next
    case True
    obtain r w' where fw: "fn w = (r, w')" by (cases "fn w")
    have s: "log_extends Q w w'" using step [of w] fw by simp
    show ?thesis
    proof (cases r)
      case (Inr v)
      then show ?thesis using True fw s
        by (simp add: retry_loop.simps [of fn maxRetries initialDelay i lastError w n ds])
    next
      case (Inl e)
      show ?thesis
      proof (cases "isOverloaded (errorMessage e) \<and> int i < maxRetries - 1")
        case False
        then show ?thesis using True fw s Inl
          by (auto simp: retry_loop.simps [of fn maxRetries initialDelay i lastError w n ds])
      next
        case again: True
        have "log_extends Q w'
           (world_after (retry_loop fn maxRetries initialDelay (Suc i) (Some e) w' (Suc n)
              (ds @ [initialDelay * 2 ^ i])))"
          using "1.IH" [OF True fw [symmetric] Inl again step] by simp
        then show ?thesis using True fw Inl again s
          by (simp add: retry_loop.simps [of fn maxRetries initialDelay i lastError w n ds])
             (rule log_extends_trans)
      qed
    qed
  qed
qed


lemma log_extends_length:
  "log_extends Q w w' \<Longrightarrow> length (provider_log w) \<le> length (provider_log w')"
  unfolding log_extends_def by (metis length_take min.cobounded1)

lemma retry_loop_calls:
  assumes step: "\<And>w. log_extends Q w (snd (fn w))"
    and grows: "\<And>w. length (provider_log w) < length (provider_log (snd (fn w)))"
    and first: "int i < maxRetries"
  shows "length (provider_log w) <
         length (provider_log (world_after (retry_loop fn maxRetries d i le w n ds)))"
proof -
  obtain r w' where fw: "fn w = (r, w')" by (cases "fn w")
  have g: "length (provider_log w) < length (provider_log w')" using grows [of w] fw by simp
  have later: "length (provider_log w') \<le> length (provider_log
      (world_after (retry_loop fn maxRetries d i' le' w' n' ds')))" for i' le' n' ds'
    by (rule log_extends_length [OF retry_loop_log [where Q = Q, OF step]])
  show ?thesis
  proof (cases r)
    case (Inr v)
    then show ?thesis using first fw g
      by (simp add: retry_loop.simps [of fn maxRetries d i le w n ds])
  next
    case (Inl e)
    show ?thesis
      using first fw g Inl later [of "Suc i" "Some e" "Suc n" "ds @ [d * 2 ^ i]"]
      by (auto simp: retry_loop.simps [of fn maxRetries d i le w n ds])
  qed
qed

lemma generateResponse_log:
  assumes "\<not> key_missing w"
  shows "log_extends (\<lambda>c. snd c =
             ChatRequest (conversationHistory (getMessages uid (addMessage uid User m w))) m)
           w (snd (generateResponse uid m w)) \<and>
         length (provider_log w) < length (provider_log (snd (generateResponse uid m w)))"
proof -
  let ?w1 = "addMessage uid User m w"
  let ?h = "conversationHistory (getMessages uid ?w1)"
  let ?Q = "\<lambda>c. snd c = ChatRequest ?h m"
  let ?r = "retryWithBackoff (generateContent_chat ?h m) 3 2000 ?w1"
  have same: "provider_log ?w1 = provider_log w" by (simp add: addMessage_def)
  have ext: "log_extends ?Q ?w1 (world_after ?r)"
    unfolding retryWithBackoff_def
    by (rule retry_loop_log) (simp add: log_extends_chat)
  have grow: "length (provider_log ?w1) < length (provider_log (world_after ?r))"
    unfolding retryWithBackoff_def
    by (rule retry_loop_calls [where Q = ?Q]) (simp_all add: log_extends_chat)
  have fin: "provider_log (snd (generateResponse uid m w)) = provider_log (world_after ?r)"
    using assms
    by (simp add: generateResponse_def generateResponse_try_def Let_def addMessage_def
        split: sum.splits)
  show ?thesis
    using ext grow by (simp add: log_extends_def fin same)
qed

text \<open>
  C9. With twelve stored turns of the user, \<open>generateResponse\<close> appends the new user turn
  (thirteen stored turns) and builds the history from \<open>slice(-11, -1)\<close>: exactly the last
  ten of the twelve earlier turns, in order, without the new turn. Every invocation of a
  model the handler then makes (there is at least one) carries this history, with the new
  turn's text as the current message.
\<close>

theorem history_window_of_thirteen:
  assumes "length (getMessages uid w) = 12" and "\<not> key_missing w"
  shows "let history = map (\<lambda>msg. (if role msg = User then ''user'' else ''model'', content msg))
                         (drop 2 (getMessages uid w));
             sent = drop (length (provider_log w))
                      (provider_log (snd (generateResponse uid userMessage w)))
         in length history = 10 \<and>
            conversationHistory (getMessages uid (addMessage uid User userMessage w)) = history \<and>
            sent \<noteq> [] \<and>
            list_all (\<lambda>c. snd c = ChatRequest history userMessage) sent"
proof -
  have h: "conversationHistory (getMessages uid (addMessage uid User userMessage w)) =
      map (\<lambda>msg. (if role msg = User then ''user'' else ''model'', content msg))
        (drop 2 (getMessages uid w))"
    using assms(1) by (simp add: conversationHistory_def getMessages_addMessage slice_last_ten)
  show ?thesis
    using generateResponse_log [OF assms(2), of uid userMessage] assms(1)
    by (simp add: Let_def h log_extends_def)
qed

theorem history_window_of_thirteen_witness:
  "conversationHistory (getMessages ''u'' (addMessage ''u'' User ''m13'' twelve_turns_world)) =
     [(''user'', ''m3''), (''model'', ''m4''), (''user'', ''m5''), (''model'', ''m6''),
      (''user'', ''m7''), (''model'', ''m8''), (''user'', ''m9''), (''model'', ''m10''),
      (''user'', ''m11''), (''model'', ''m12'')] \<and>
   list_all (\<lambda>c. snd c = ChatRequest
       [(''user'', ''m3''), (''model'', ''m4''), (''user'', ''m5''), (''model'', ''m6''),
        (''user'', ''m7''), (''model'', ''m8''), (''user'', ''m9''), (''model'', ''m10''),
        (''user'', ''m11''), (''model'', ''m12'')] ''m13'')
     (provider_log (snd (generateResponse ''u'' ''m13'' twelve_turns_world))) \<and>
   provider_log (snd (generateResponse ''u'' ''m13'' twelve_turns_world)) \<noteq> []"
proof -
  have a: "length (getMessages ''u'' twelve_turns_world) = 12"
    by (simp add: getMessages_def twelve_turns_world_def turn_def)
  have b: "\<not> key_missing twelve_turns_world"
    by (simp add: key_missing_def twelve_turns_world_def)
  have c: "provider_log twelve_turns_world = []"
    by (simp add: twelve_turns_world_def)
  have d: "map (\<lambda>msg. (if role msg = User then ''user'' else ''model'', content msg))
             (drop 2 (getMessages ''u'' twelve_turns_world)) =
     [(''user'', ''m3''), (''model'', ''m4''), (''user'', ''m5''), (''model'', ''m6''),
      (''user'', ''m7''), (''model'', ''m8''), (''user'', ''m9''), (''model'', ''m10''),
      (''user'', ''m11''), (''model'', ''m12'')]"
    by (simp add: getMessages_def twelve_turns_world_def turn_def)
  show ?thesis
    using history_window_of_thirteen [OF a b, of "''m13''"]
    by (simp add: Let_def c d)
qed

section \<open>The food-analysis result\<close>






section \<open>The workout-plan validator\<close>

lemma map_of_set_key_same: "map_of (set_key k v kvs) k = Some v"
  by (induction kvs) auto

lemma map_of_set_key_other: "k' \<noteq> k \<Longrightarrow> map_of (set_key k v kvs) k' = map_of kvs k'"
  by (induction kvs) auto

lemma map_exn_Inr:
  "map_exn f xs = Inr ys \<Longrightarrow> list_all2 (\<lambda>x y. f x = Inr y) xs ys"
  by (induction xs arbitrary: ys) (auto split: sum.splits)

lemma get_not_null: "get v k = Inr r \<Longrightarrow> r = get_chain (Some v) k"
  by (cases v) auto

lemma number_value_is_number: "is_number (Some (number_value nv radix negative m))"
  by (simp add: number_value_def split: option.splits)

lemma parseInt_string_is_number: "parseInt_string nv s = Some x \<Longrightarrow> is_number (Some x)"
  by (auto simp: parseInt_string_def Let_def number_value_is_number split: if_splits)

lemma or_else_is_number:
  "(\<And>x. p = Some x \<Longrightarrow> is_number (Some x)) \<Longrightarrow> is_number (Some (or_else p (JNumber d)))"
  by (cases p) (auto simp: or_else_def)

lemma coerce_number_is_number:
  assumes "coerce_number ns nv d v = Inr s"
  shows "is_number (Some s)"
proof (cases "is_number v")
  case True
  then show ?thesis using assms
    by (cases v rule: is_number.cases) (auto simp: coerce_number_def)
next
  case False
  then have "coerce_number ns nv d v =
      (case parseInt ns nv v of Inl e \<Rightarrow> Inl e | Inr p \<Rightarrow> Inr (or_else p (JNumber d)))"
    by (cases v rule: is_number.cases) (simp_all add: coerce_number_def split: option.splits json.splits)
  with assms obtain p where p: "parseInt ns nv v = Inr p" and s: "s = or_else p (JNumber d)"
    by (auto split: sum.splits)
  from p have "\<And>x. p = Some x \<Longrightarrow> is_number (Some x)"
    by (auto simp: parseInt_def split: sum.splits dest: parseInt_string_is_number)
  then show ?thesis unfolding s by (rule or_else_is_number)
qed


lemma fix_routine_Inr:
  assumes "fix_routine ns nv r = Inr r'"
  shows "(\<exists>s. coerce_number ns nv 3 (get_chain (Some r) ''sets'') = Inr s \<and>
              get_chain (Some r') ''sets'' = Some s) \<and>
         (\<exists>p. coerce_number ns nv 10 (get_chain (Some r) ''reps'') = Inr p \<and>
              get_chain (Some r') ''reps'' = Some p)"
  using assms
  by (auto simp: fix_routine_def map_of_set_key_same map_of_set_key_other
      split: sum.splits dest!: get_not_null)

lemma fix_exercise_Inr:
  assumes "fix_exercise ns nv x = Inr x'"
  shows "list_all2 (\<lambda>r r'. fix_routine ns nv r = Inr r') (routines_of x) (routines_of x')"
  using assms
  by (auto simp: fix_exercise_def routines_of_def map_of_set_key_same
      split: sum.splits option.splits json.splits dest!: get_not_null map_exn_Inr)

lemma list_all2_concat:
  "list_all2 (list_all2 R) xss yss \<Longrightarrow> list_all2 R (concat xss) (concat yss)"
  by (induction rule: list_all2_induct) (auto intro: list_all2_appendI)

lemma validateWorkoutPlan_routines:
  assumes "validateWorkoutPlan ns nv plan' = Inr fixed"
  shows "list_all2 (\<lambda>r r'. fix_routine ns nv r = Inr r') (plan_routines plan') (plan_routines fixed)"
proof (cases "\<exists>xs. get_chain (Some plan') ''exercises'' = Some (JArray xs)")
  case False
  then have "plan_routines plan' = []"
    by (auto simp: plan_routines_def split: option.splits json.splits)
  moreover have "fixed = plan'"
    using assms False
    by (auto simp: validateWorkoutPlan_def split: sum.splits option.splits json.splits if_splits
        dest!: get_not_null)
  ultimately show ?thesis by simp
next
  case True
  then obtain xs where xs: "get_chain (Some plan') ''exercises'' = Some (JArray xs)" by blast
  then obtain kvs where kvs: "plan' = JObject kvs" and m: "map_of kvs ''exercises'' = Some (JArray xs)"
    by (cases plan') auto
  from assms kvs m obtain xs' where xs': "map_exn (fix_exercise ns nv) xs = Inr xs'"
    and fixed: "fixed = JObject (set_key ''exercises'' (JArray xs') kvs)"
    by (auto simp: validateWorkoutPlan_def split: sum.splits)
  have "list_all2 (\<lambda>x x'. fix_exercise ns nv x = Inr x') xs xs'"
    by (rule map_exn_Inr [OF xs'])
  then have "list_all2 (list_all2 (\<lambda>r r'. fix_routine ns nv r = Inr r'))
               (map routines_of xs) (map routines_of xs')"
    by (simp add: list_all2_map1 list_all2_map2)
       (erule list_all2_mono, rule fix_exercise_Inr)
  then show ?thesis
    by (simp add: plan_routines_def kvs m fixed map_of_set_key_same list_all2_concat)
qed

lemma parseInt_as_many: "parseInt_string nv ''As many as possible'' = None"
  by (simp add: parseInt_string_def Let_def is_space_def startsWith_def is_digit_def digit_val_def)

lemma parseInt_12_reps: "parseInt_string nv ''12 reps'' = Some (JNumber 12)"
  by (simp add: parseInt_string_def Let_def is_space_def startsWith_def is_digit_def digit_val_def
      digits_value_def number_value_def)

lemma validate_plank:
  "validateWorkoutPlan integer_toString overflow_value plank_plan = Inr plank_plan_fixed"
  by (simp add: validateWorkoutPlan_def fix_exercise_def fix_routine_def coerce_number_def
      parseInt_def parseInt_as_many or_else_def plank_plan_def plank_plan_fixed_def)

text \<open>
  A number is kept as it is, so a routine with \<open>sets: 0\<close> and \<open>reps: -5\<close> leaves the
  validation with these values: not every routine has \<open>sets\<close> and \<open>reps\<close> of at least 1.
\<close>

theorem validateWorkoutPlan_sets_reps_counterexample:
  "validateWorkoutPlan integer_toString overflow_value plank_plan = Inr plank_plan_fixed \<and>
   plan_routines plank_plan_fixed =
     [JObject [(''name'', JString ''Pull-ups''), (''sets'', JNumber 4), (''reps'', JNumber 10)],
      JObject [(''name'', JString ''Plank''), (''sets'', JNumber 0), (''reps'', JNumber (- 5))]] \<and>
   \<not> list_all (\<lambda>r. integer_ge_1 (get_chain (Some r) ''sets'') \<and>
                    integer_ge_1 (get_chain (Some r) ''reps''))
        (plan_routines plank_plan_fixed)"
  by (simp add: validate_plank plan_routines_def routines_of_def plank_plan_fixed_def
      integer_ge_1_def)

text \<open>
  C7 (amended). In every workout plan that \<open>validateWorkoutPlan\<close> returns, each routine
  has numbers as \<open>sets\<close> and \<open>reps\<close>, obtained from the routine of the input by the coercion
  with default 3 for \<open>sets\<close> and 10 for \<open>reps\<close>. The coercion preserves a value that is a
  number as it is (zero, negative, fractional and infinite values too). Any other value
  it hands to \<open>parseInt\<close>: when that gives \<open>NaN\<close> or zero the result is the default,
  otherwise it is the number \<open>parseInt\<close> gives. So \<open>reps: "As many as possible"\<close> becomes 10.
  What the coercion returns is always a number.
\<close>

theorem validateWorkoutPlan_sets_reps:
  "(validateWorkoutPlan ns nv plan' = Inr fixed \<longrightarrow>
      list_all2
        (\<lambda>r r'. (\<exists>s. coerce_number ns nv 3 (get_chain (Some r) ''sets'') = Inr s \<and>
                       get_chain (Some r') ''sets'' = Some s) \<and>
                 (\<exists>p. coerce_number ns nv 10 (get_chain (Some r) ''reps'') = Inr p \<and>
                       get_chain (Some r') ''reps'' = Some p))
        (plan_routines plan') (plan_routines fixed)) \<and>
   coerce_number ns nv d (Some (JNumber n)) = Inr (JNumber n) \<and>
   coerce_number ns nv d (Some (JInfinity b)) = Inr (JInfinity b) \<and>
   coerce_number ns nv d (Some (JString ''As many as possible'')) = Inr (JNumber d) \<and>
   (\<not> is_number v \<longrightarrow>
      coerce_number ns nv d v =
        (case parseInt ns nv v of
           Inl e \<Rightarrow> Inl e
         | Inr None \<Rightarrow> Inr (JNumber d)
         | Inr (Some x) \<Rightarrow> Inr (if x = JNumber 0 then JNumber d else x))) \<and>
   (coerce_number ns nv d v = Inr s \<longrightarrow> is_number (Some s))"
proof -
  have a: "validateWorkoutPlan ns nv plan' = Inr fixed \<longrightarrow>
      list_all2
        (\<lambda>r r'. (\<exists>s. coerce_number ns nv 3 (get_chain (Some r) ''sets'') = Inr s \<and>
                       get_chain (Some r') ''sets'' = Some s) \<and>
                 (\<exists>p. coerce_number ns nv 10 (get_chain (Some r) ''reps'') = Inr p \<and>
                       get_chain (Some r') ''reps'' = Some p))
        (plan_routines plan') (plan_routines fixed)"
  proof
    assume "validateWorkoutPlan ns nv plan' = Inr fixed"
    then have "list_all2 (\<lambda>r r'. fix_routine ns nv r = Inr r')
                 (plan_routines plan') (plan_routines fixed)"
      by (rule validateWorkoutPlan_routines)
    then show "list_all2
        (\<lambda>r r'. (\<exists>s. coerce_number ns nv 3 (get_chain (Some r) ''sets'') = Inr s \<and>
                       get_chain (Some r') ''sets'' = Some s) \<and>
                 (\<exists>p. coerce_number ns nv 10 (get_chain (Some r) ''reps'') = Inr p \<and>
                       get_chain (Some r') ''reps'' = Some p))
        (plan_routines plan') (plan_routines fixed)"
      by (rule list_all2_mono) (rule fix_routine_Inr)
  qed
  have b: "coerce_number ns nv d (Some (JNumber n)) = Inr (JNumber n)"
    and b': "coerce_number ns nv d (Some (JInfinity b)) = Inr (JInfinity b)"
    by (simp_all add: coerce_number_def)
  have c: "coerce_number ns nv d (Some (JString ''As many as possible'')) = Inr (JNumber d)"
    by (simp add: coerce_number_def parseInt_def parseInt_as_many or_else_def)
  have e: "\<not> is_number v \<longrightarrow>
      coerce_number ns nv d v =
        (case parseInt ns nv v of
           Inl e \<Rightarrow> Inl e
         | Inr None \<Rightarrow> Inr (JNumber d)
         | Inr (Some x) \<Rightarrow> Inr (if x = JNumber 0 then JNumber d else x))"
  proof
    assume nn: "\<not> is_number v"
    then have u: "coerce_number ns nv d v =
        (case parseInt ns nv v of Inl e \<Rightarrow> Inl e | Inr p \<Rightarrow> Inr (or_else p (JNumber d)))"
      by (cases v rule: is_number.cases)
         (simp_all add: coerce_number_def split: option.splits json.splits)
    show "coerce_number ns nv d v =
        (case parseInt ns nv v of
           Inl e \<Rightarrow> Inl e
         | Inr None \<Rightarrow> Inr (JNumber d)
         | Inr (Some x) \<Rightarrow> Inr (if x = JNumber 0 then JNumber d else x))"
    proof (cases "parseInt ns nv v")
      case (Inl e)
      then show ?thesis by (simp add: u)
    next
      case (Inr p)
      show ?thesis
      proof (cases p)
        case None
        then show ?thesis by (simp add: u Inr or_else_def)
      next
        case (Some x)
        then have "is_number (Some x)"
          using Inr by (auto simp: parseInt_def split: sum.splits dest: parseInt_string_is_number)
        then show ?thesis
          by (cases "Some x" rule: is_number.cases) (auto simp: u Inr Some or_else_def)
      qed
    qed
  qed
  have f: "coerce_number ns nv d v = Inr s \<longrightarrow> is_number (Some s)"
    using coerce_number_is_number by blast
  show ?thesis using a b b' c e f by blast
qed

theorem validateWorkoutPlan_sets_reps_witness:
  "list_all2
     (\<lambda>r r'. (\<exists>s. coerce_number integer_toString overflow_value 3 (get_chain (Some r) ''sets'') = Inr s \<and>
                    get_chain (Some r') ''sets'' = Some s) \<and>
              (\<exists>p. coerce_number integer_toString overflow_value 10 (get_chain (Some r) ''reps'') = Inr p \<and>
                    get_chain (Some r') ''reps'' = Some p))
     (plan_routines plank_plan) (plan_routines plank_plan_fixed) \<and>
   coerce_number integer_toString overflow_value 3 (Some (JNumber 4)) = Inr (JNumber 4) \<and>
   coerce_number integer_toString overflow_value 10 (Some (JString ''As many as possible'')) =
     Inr (JNumber 10) \<and>
   coerce_number integer_toString overflow_value 10 (Some (JString ''12 reps'')) =
     Inr (JNumber 12) \<and>
   is_number (Some (JNumber 12))"
proof -
  note t = validateWorkoutPlan_sets_reps
  have v: "\<not> is_number (Some (JString ''12 reps''))" by simp
  have pi: "parseInt integer_toString overflow_value (Some (JString ''12 reps'')) =
      Inr (Some (JNumber 12))"
    by (simp add: parseInt_def parseInt_12_reps)
  from t [of integer_toString overflow_value plank_plan plank_plan_fixed 3 4 False
            "Some (JString ''12 reps'')" "JNumber 12"]
  have a: "list_all2
     (\<lambda>r r'. (\<exists>s. coerce_number integer_toString overflow_value 3 (get_chain (Some r) ''sets'') = Inr s \<and>
                    get_chain (Some r') ''sets'' = Some s) \<and>
              (\<exists>p. coerce_number integer_toString overflow_value 10 (get_chain (Some r) ''reps'') = Inr p \<and>
                    get_chain (Some r') ''reps'' = Some p))
     (plan_routines plank_plan) (plan_routines plank_plan_fixed)"
    and b: "coerce_number integer_toString overflow_value 3 (Some (JNumber 4)) = Inr (JNumber 4)"
    using validate_plank by blast+
  from t [of integer_toString overflow_value plank_plan plank_plan_fixed 10 4 False
            "Some (JString ''12 reps'')" "JNumber 12"]
  have c: "coerce_number integer_toString overflow_value 10 (Some (JString ''As many as possible'')) =
      Inr (JNumber 10)"
    and d: "coerce_number integer_toString overflow_value 10 (Some (JString ''12 reps'')) =
        (case parseInt integer_toString overflow_value (Some (JString ''12 reps'')) of
           Inl e \<Rightarrow> Inl e
         | Inr None \<Rightarrow> Inr (JNumber 10)
         | Inr (Some x) \<Rightarrow> Inr (if x = JNumber 0 then JNumber 10 else x))"
    and e: "coerce_number integer_toString overflow_value 10 (Some (JString ''12 reps'')) =
        Inr (JNumber 12) \<longrightarrow> is_number (Some (JNumber 12))"
    using v by blast+
  have d': "coerce_number integer_toString overflow_value 10 (Some (JString ''12 reps'')) =
     Inr (JNumber 12)"
    using d by (simp add: pi)
  show ?thesis using a b c d' e by blast
qed

section \<open>Where the normalizers return, and what\<close>


























section \<open>The credential check\<close>

text \<open>
  Without the credential, \<open>generateResponse\<close> and \<open>analyzeFoodImage\<close> throw at once: the
  world is unchanged (no provider call, no stored turn) and the message names the missing
  \<open>GEMINI_API_KEY\<close>.
\<close>

lemma key_error_not_classified:
  "generateResponse_catch key_error =
     JsError ''Failed to generate AI response: GEMINI_API_KEY is not configured in environment variables''"
  "analyzeFoodImage_catch key_error =
     JsError ''Failed to analyze the image: GEMINI_API_KEY is not configured in environment variables''"
  by (simp_all add: generateResponse_catch_def analyzeFoodImage_catch_def key_error_def
      isOverloaded_def startsWith_def Let_def)

lemma generateResponse_without_key:
  "key_missing w \<Longrightarrow>
   generateResponse uid userMessage w =
     (Inl (JsError ''Failed to generate AI response: GEMINI_API_KEY is not configured in environment variables''),
      w)"
  by (simp add: generateResponse_def generateResponse_try_def key_error_not_classified)

lemma analyzeFoodImage_without_key:
  "key_missing w \<Longrightarrow>
   analyzeFoodImage JSON_parse engine_message imageData mimeType w =
     (Inl (JsError ''Failed to analyze the image: GEMINI_API_KEY is not configured in environment variables''),
      w)"
  by (simp add: analyzeFoodImage_def analyzeFoodImage_try_def key_error_not_classified)

text \<open>
  \<open>generatePlan\<close> never reads the credential: in every world, its first step is a call of
  the provider.
\<close>

lemma generatePlan_calls_provider_first:
  "take (Suc (length (provider_log w)))
     (provider_log (snd (generatePlan JSON_parse ns nv engine_message uid fitness_goal w))) =
   provider_log w @ [(''gemini-2.5-pro'', WorkoutRequest)]"
  by (simp add: generatePlan_def callModel_text_def callModel_def runMutation_createPlan_def
      split: sum.splits prod.splits)

text \<open>
  C8. With no credential configured, an entry point that invokes the provider must fail
  with a configuration error before any call of the provider. \<open>generatePlan\<close> does not:
  in \<open>keyless_world\<close> it calls the provider, and what it throws is the provider's
  rejection.
\<close>

theorem generatePlan_without_key:
  "key_missing keyless_world \<and>
   generatePlan example_parse integer_toString overflow_value example_engine_message
       ''u'' ''Build muscle'' keyless_world =
     (Inl (JsError ''[400 Bad Request] API key not valid.''),
      keyless_world\<lparr>provider_log := [(''gemini-2.5-pro'', WorkoutRequest)]\<rparr>)"
  by (simp add: generatePlan_def callModel_text_def callModel_def keyless_world_def key_missing_def)

end
